theory Spec2Isabelle
  imports Complex_Main "HOL-Library.Sublist" "HOL-Library.Multiset"
begin

section \<open>The Upwork job analyzer (job-analyzer.py)\<close>

text \<open>
  The analyzer turns raw job-post dictionaries into \<open>JobPost\<close> records and folds a batch
  of them into a report.  Python is dynamically typed, so a raw record may hold any value
  under any key; the values are modelled by \<open>pyval\<close> and every exception the analyzer can
  raise on them is a value of \<open>py_error\<close>.

  Text is modelled as \<open>string\<close> (ASCII characters); integers are unbounded, as in Python.
  The interpreter's optional limit on the number of digits that \<open>int()\<close> converts is not
  modelled.
\<close>

subsection \<open>Python values and exceptions\<close>

datatype py_error = TypeError | AttributeError | ValueError | OverflowError | KeyError

datatype pyfloat = Finite rat | Infinity bool | NaN

datatype pyval =
    PNone
  | PBool bool
  | PInt int
  | PFloat pyfloat
  | PStr string
  | PList "pyval list"
  | PDict "(string \<times> pyval) list"

text \<open>Truth value of an object, as tested by \<open>not budget_text\<close>.\<close>

fun truthy :: "pyval \<Rightarrow> bool" where
  "truthy PNone = False"
| "truthy (PBool b) = b"
| "truthy (PInt n) = (n \<noteq> 0)"
| "truthy (PFloat f) = (f \<noteq> Finite 0)"
| "truthy (PStr s) = (s \<noteq> [])"
| "truthy (PList xs) = (xs \<noteq> [])"
| "truthy (PDict kvs) = (kvs \<noteq> [])"

text \<open>\<open>str.lower()\<close> on ASCII text.\<close>

definition lower_char :: "char \<Rightarrow> char" where
  "lower_char c =
     (let n = (of_char c :: nat) in if 65 \<le> n \<and> n \<le> 90 then char_of (n + 32) else c)"

definition lower :: "string \<Rightarrow> string" where
  "lower s = map lower_char s"

text \<open>\<open>x.lower()\<close> on an arbitrary value: only a \<open>str\<close> has the method.\<close>

fun py_lower :: "pyval \<Rightarrow> py_error + string" where
  "py_lower (PStr s) = Inr (lower s)"
| "py_lower _ = Inl AttributeError"

text \<open>
  \<open>(a + " " + b).lower()\<close>: \<open>a + " "\<close> raises \<open>TypeError\<close> unless \<open>a\<close> is a \<open>str\<close>, and
  adding \<open>b\<close> to the resulting \<open>str\<close> raises \<open>TypeError\<close> unless \<open>b\<close> is a \<open>str\<close>.
\<close>

fun py_text :: "pyval \<Rightarrow> pyval \<Rightarrow> py_error + string" where
  "py_text (PStr a) (PStr b) = Inr (lower (a @ '' '' @ b))"
| "py_text _ _ = Inl TypeError"

subsection \<open>Decimal numbers in text\<close>

definition is_digit :: "char \<Rightarrow> bool" where
  "is_digit c = (let n = (of_char c :: nat) in 48 \<le> n \<and> n \<le> 57)"

definition digit_val :: "char \<Rightarrow> int" where
  "digit_val c = int (of_char c) - 48"

text \<open>\<open>int(num)\<close> on a run of decimal digits.\<close>

definition int_of_digits :: "string \<Rightarrow> int" where
  "int_of_digits s = foldl (\<lambda>n c. 10 * n + digit_val c) 0 s"

text \<open>\<open>re.findall(r'\d+', s)\<close>: the maximal runs of digits, left to right.\<close>

function findall_digits :: "string \<Rightarrow> string list" where
  "findall_digits [] = []"
| "findall_digits (c # cs) =
     (if is_digit c
      then (c # takeWhile is_digit cs) # findall_digits (dropWhile is_digit cs)
      else findall_digits cs)"
  by pat_completeness auto
termination
  by (relation "measure length") (auto simp: le_imp_less_Suc length_dropWhile_le)

text \<open>
  \<open>int(x)\<close>.  A string is stripped of surrounding whitespace and must then be an optional
  sign followed by digits, where single underscores may separate digits.
\<close>

definition is_space :: "char \<Rightarrow> bool" where
  "is_space c = (let n = (of_char c :: nat) in (9 \<le> n \<and> n \<le> 13) \<or> (28 \<le> n \<and> n \<le> 32))"

definition strip :: "string \<Rightarrow> string" where
  "strip s = rev (dropWhile is_space (rev (dropWhile is_space s)))"

fun digits_sep :: "string \<Rightarrow> bool" where
  "digits_sep [] = False"
| "digits_sep [c] = is_digit c"
| "digits_sep (c # d # cs) =
     (is_digit c \<and> (if d = CHR ''_'' then digits_sep cs else digits_sep (d # cs)))"

definition int_of_str :: "string \<Rightarrow> py_error + int" where
  "int_of_str s =
     (let t = strip s;
          neg = (t \<noteq> [] \<and> hd t = CHR ''-'');
          body = (if t \<noteq> [] \<and> (hd t = CHR ''-'' \<or> hd t = CHR ''+'') then tl t else t);
          n = int_of_digits (filter (\<lambda>c. c \<noteq> CHR ''_'') body)
      in if digits_sep body then Inr (if neg then - n else n) else Inl ValueError)"

fun py_int :: "pyval \<Rightarrow> py_error + int" where
  "py_int PNone = Inl TypeError"
| "py_int (PBool b) = Inr (if b then 1 else 0)"
| "py_int (PInt n) = Inr n"
| "py_int (PFloat (Finite r)) = Inr (if 0 \<le> r then \<lfloor>r\<rfloor> else \<lceil>r\<rceil>)"
| "py_int (PFloat (Infinity _)) = Inl OverflowError"
| "py_int (PFloat NaN) = Inl ValueError"
| "py_int (PStr s) = int_of_str s"
| "py_int (PList _) = Inl TypeError"
| "py_int (PDict _) = Inl TypeError"

text \<open>
  \<open>a / b\<close> on integers with \<open>b > 0\<close>: the exact quotient is rounded to the nearest
  double, and \<open>OverflowError\<close> is raised when that is not finite, that is when
  \<open>|a| / b \<ge> 2^1024 - 2^970\<close>.  The model keeps the exact quotient in place of the
  rounded one.
\<close>

definition py_truediv :: "int \<Rightarrow> nat \<Rightarrow> py_error + rat" where
  "py_truediv a b =
     (if int b * (2 ^ 1024 - 2 ^ 970) \<le> \<bar>a\<bar> then Inl OverflowError
      else Inr (of_int a / of_nat b))"

text \<open>
  \<open>max(xs, key=key)\<close>: the first element whose key is not exceeded by any other;
  \<open>ValueError\<close> on an empty sequence.
\<close>

fun max_from :: "('a \<Rightarrow> int) \<Rightarrow> 'a \<Rightarrow> 'a list \<Rightarrow> 'a" where
  "max_from key m [] = m"
| "max_from key m (x # xs) = max_from key (if key m < key x then x else m) xs"

fun py_max :: "('a \<Rightarrow> int) \<Rightarrow> 'a list \<Rightarrow> py_error + 'a" where
  "py_max key [] = Inl ValueError"
| "py_max key (x # xs) = Inr (max_from key x xs)"

text \<open>
  \<open>sorted(xs, key=key, reverse=True)\<close>: descending by key, elements with equal keys
  stay in their original order.
\<close>

definition py_sorted_reverse :: "('a \<Rightarrow> int) \<Rightarrow> 'a list \<Rightarrow> 'a list" where
  "py_sorted_reverse key xs = sort_key (\<lambda>x. - key x) xs"

text \<open>
  \<open>d[k] = d.get(k, 0) + 1\<close> on a dictionary, kept as an association list in insertion
  order: a new key goes to the end, an existing key keeps its place.
\<close>

fun count_key :: "string \<Rightarrow> (string \<times> nat) list \<Rightarrow> (string \<times> nat) list" where
  "count_key k [] = [(k, 1)]"
| "count_key k ((k', n) # d) = (if k = k' then (k', n + 1) # d else (k', n) # count_key k d)"

subsection \<open>Taxonomy\<close>

definition skill_keywords :: "(string \<times> (string \<times> string list) list) list" where
  "skill_keywords =
    [(''web_development'',
       [(''frontend'', [''react'', ''vue'', ''angular'', ''javascript'', ''typescript'', ''html'', ''css'']),
        (''backend'', [''node'', ''python'', ''php'', ''laravel'', ''django'', ''express'']),
        (''fullstack'', [''full-stack'', ''fullstack'', ''mern'', ''mean'', ''lamp'']),
        (''wordpress'', [''wordpress'', ''wp'', ''elementor'', ''gutenberg'', ''woocommerce''])]),
     (''mobile_apps'',
       [(''ios'', [''ios'', ''swift'', ''objective-c'', ''xcode'']),
        (''android'', [''android'', ''kotlin'', ''java'', ''android studio'']),
        (''react_native'', [''react native'', ''expo'']),
        (''flutter'', [''flutter'', ''dart''])]),
     (''ai_ml'',
       [(''chatbots'', [''chatbot'', ''bot'', ''conversational ai'', ''dialogue'']),
        (''automation'', [''automation'', ''scraping'', ''workflow'', ''zapier'']),
        (''data_analysis'', [''data analysis'', ''pandas'', ''numpy'', ''visualization'']),
        (''machine_learning'', [''machine learning'', ''ai'', ''tensorflow'', ''pytorch''])]),
     (''design'',
       [(''ui_ux'', [''ui'', ''ux'', ''user experience'', ''user interface'']),
        (''graphic_design'', [''logo'', ''branding'', ''graphic design'', ''photoshop'']),
        (''branding'', [''brand identity'', ''brand design'', ''corporate identity'']),
        (''figma'', [''figma'', ''sketch'', ''adobe xd''])])]"

text \<open>The upper bound \<open>float('inf')\<close> of the last range is \<open>None\<close>.\<close>

definition budget_ranges :: "(string \<times> int \<times> int option) list" where
  "budget_ranges =
    [(''micro'', 0, Some 50),
     (''small'', 50, Some 500),
     (''medium'', 500, Some 5000),
     (''large'', 5000, None)]"

subsection \<open>Extractor\<close>

text \<open>
  The keywords found by the loop of \<open>extract_skills\<close>, in taxonomy order (a keyword listed
  under two subcategories would be found twice).
\<close>

definition found_skills :: "string \<Rightarrow> string list" where
  "found_skills text =
     concat (map (\<lambda>(category, subcategories).
       concat (map (\<lambda>(subcategory, keywords).
         filter (\<lambda>keyword. sublist keyword text) keywords) subcategories)) skill_keywords)"

text \<open>
  \<open>list(set(found_skills))\<close> lists the distinct keywords in the iteration order of a hash
  set, which the language leaves open.  The order in effect is the parameter \<open>set_list\<close>;
  \<open>set_list_ok\<close> says what every such order satisfies.
\<close>

definition set_list_ok :: "(string list \<Rightarrow> string list) \<Rightarrow> bool" where
  "set_list_ok set_list = (\<forall>xs. set (set_list xs) = set xs \<and> distinct (set_list xs))"

definition extract_skills ::
  "(string list \<Rightarrow> string list) \<Rightarrow> pyval \<Rightarrow> pyval \<Rightarrow> py_error + string list" where
  "extract_skills set_list description title =
     (case py_text description title of
        Inl e \<Rightarrow> Inl e
      | Inr text \<Rightarrow> Inr (set_list (found_skills text)))"

text \<open>The loop over \<open>budget_ranges.items()\<close> with its fall-through result.\<close>

fun budget_tier :: "int \<Rightarrow> (string \<times> int \<times> int option) list \<Rightarrow> string" where
  "budget_tier max_budget [] = ''large''"
| "budget_tier max_budget ((range_name, min_val, max_val) # ranges) =
     (if min_val \<le> max_budget \<and> (case max_val of None \<Rightarrow> True | Some u \<Rightarrow> max_budget < u)
      then range_name
      else budget_tier max_budget ranges)"

text \<open>\<open>max(int(num) for num in numbers)\<close> on a non-empty list.\<close>

definition max_int :: "string list \<Rightarrow> int" where
  "max_int numbers = fold max (map int_of_digits (tl numbers)) (int_of_digits (hd numbers))"

definition extract_budget :: "pyval \<Rightarrow> py_error + string" where
  "extract_budget budget_text =
     (if \<not> truthy budget_text then Inr ''unknown''
      else case budget_text of
        PStr s \<Rightarrow>
          (let numbers = findall_digits (filter (\<lambda>c. c \<noteq> CHR '','') s)
           in if numbers = [] then Inr ''unknown''
              else Inr (budget_tier (max_int numbers) budget_ranges))
      | _ \<Rightarrow> Inl AttributeError)"

subsection \<open>Classifier\<close>

text \<open>The counter incremented once for every keyword of the list that occurs in the text.\<close>

definition count_hits :: "string \<Rightarrow> string list \<Rightarrow> int \<Rightarrow> int" where
  "count_hits text keywords n =
     fold (\<lambda>keyword n. if sublist keyword text then n + 1 else n) keywords n"

definition category_scores :: "string \<Rightarrow> (string \<times> int) list" where
  "category_scores text =
     map (\<lambda>(category, subcategories).
       (category, fold (\<lambda>(subcategory, keywords) n. count_hits text keywords n) subcategories 0))
       skill_keywords"

definition subcategory_scores ::
  "string \<Rightarrow> (string \<times> string list) list \<Rightarrow> (string \<times> int) list" where
  "subcategory_scores text subcategories =
     map (\<lambda>(subcategory, keywords). (subcategory, count_hits text keywords 0)) subcategories"

text \<open>
  The score dictionaries are association lists in insertion order, with one entry per key;
  \<open>max(scores, key=scores.get)\<close> is the key of the first entry of greatest score.
\<close>

definition categorize_job :: "string list \<Rightarrow> pyval \<Rightarrow> pyval \<Rightarrow> py_error + string \<times> string" where
  "categorize_job skills title description =
     (case py_text title description of
        Inl e \<Rightarrow> Inl e
      | Inr text \<Rightarrow>
     (case py_max snd (category_scores text) of
        Inl e \<Rightarrow> Inl e
      | Inr main \<Rightarrow>
     (case map_of skill_keywords (fst main) of
        None \<Rightarrow> Inl KeyError
      | Some subcategories \<Rightarrow>
     (case py_max snd (subcategory_scores text subcategories) of
        Inl e \<Rightarrow> Inl e
      | Inr sub \<Rightarrow> Inr (fst main, fst sub)))))"

subsection \<open>Data model\<close>

record JobPost =
  job_id :: pyval
  title :: pyval
  budget :: string
  timeline :: pyval
  skills_required :: "string list"
  client_location :: pyval
  client_history :: pyval
  proposals :: int
  description :: pyval
  opportunity_score :: int
  category :: string
  subcategory :: string
  notes' :: pyval

type_synonym job_data = "string \<rightharpoonup> pyval"

text \<open>\<open>job_data.get(key, default)\<close>.\<close>

definition get :: "job_data \<Rightarrow> string \<Rightarrow> pyval \<Rightarrow> pyval" where
  "get d k dflt = (case d k of None \<Rightarrow> dflt | Some v \<Rightarrow> v)"

subsection \<open>Scorer\<close>

definition budget_bonus :: "(string \<times> int) list" where
  "budget_bonus = [(''micro'', 0), (''small'', 2), (''medium'', 4), (''large'', 6)]"

text \<open>The local variable \<open>score\<close> of \<open>calculate_opportunity_score\<close> before the final clamp.\<close>

definition unclamped_score :: "JobPost \<Rightarrow> py_error + int" where
  "unclamped_score job =
     (let score = 5;
          score = score + (case map_of budget_bonus (budget job) of None \<Rightarrow> 0 | Some b \<Rightarrow> b);
          score = (if proposals job < 10 then score + 3
                   else if proposals job < 25 then score + 1
                   else if proposals job > 50 then score - 2
                   else score);
          score = (if length (skills_required job) > 0
                   then score + min (int (length (skills_required job))) 3
                   else score)
      in case py_lower (client_history job) of
           Inl e \<Rightarrow> Inl e
         | Inr h \<Rightarrow> Inr (if sublist ''established'' h then score + 1 else score))"

definition calculate_opportunity_score :: "JobPost \<Rightarrow> py_error + int" where
  "calculate_opportunity_score job =
     (case unclamped_score job of
        Inl e \<Rightarrow> Inl e
      | Inr score \<Rightarrow> Inr (min (max score 1) 10))"

subsection \<open>Building a job post\<close>

definition process_job_post ::
  "(string list \<Rightarrow> string list) \<Rightarrow> job_data \<Rightarrow> py_error + JobPost" where
  "process_job_post set_list job_data =
     (case extract_skills set_list (get job_data ''description'' (PStr ''''))
                                   (get job_data ''title'' (PStr '''')) of
        Inl e \<Rightarrow> Inl e
      | Inr skills \<Rightarrow>
     (case categorize_job skills (get job_data ''title'' (PStr ''''))
                                 (get job_data ''description'' (PStr '''')) of
        Inl e \<Rightarrow> Inl e
      | Inr cs \<Rightarrow>
     (case extract_budget (get job_data ''budget'' (PStr '''')) of
        Inl e \<Rightarrow> Inl e
      | Inr budget_tier_name \<Rightarrow>
     (case py_int (get job_data ''proposals'' (PInt 0)) of
        Inl e \<Rightarrow> Inl e
      | Inr n \<Rightarrow>
     (let job = \<lparr> job_id = get job_data ''id'' (PStr ''''),
                   title = get job_data ''title'' (PStr ''''),
                   budget = budget_tier_name,
                   timeline = get job_data ''timeline'' (PStr ''''),
                   skills_required = skills,
                   client_location = get job_data ''client_location'' (PStr ''''),
                   client_history = get job_data ''client_history'' (PStr ''''),
                   proposals = n,
                   description = get job_data ''description'' (PStr ''''),
                   opportunity_score = 0,
                   category = fst cs,
                   subcategory = snd cs,
                   notes' = get job_data ''notes'' (PStr '''') \<rparr>
      in case calculate_opportunity_score job of
           Inl e \<Rightarrow> Inl e
         | Inr s \<Rightarrow> Inr (job\<lparr>opportunity_score := s\<rparr>))))))"

subsection \<open>Aggregator\<close>

record competitions =
  low :: nat
  medium :: nat
  high :: nat

record competition_view =
  distribution :: competitions
  average_proposals :: rat

record opportunity =
  opp_job_id :: pyval
  opp_title :: pyval
  score :: int
  opp_budget :: string
  opp_proposals :: int
  opp_category :: string

record analysis =
  total_jobs :: nat
  categories :: "(string \<times> nat) list"
  budgets :: "(string \<times> nat) list"
  competition :: competition_view
  top_skills :: "(string \<times> nat) list"
  opportunities :: "opportunity list"
  processed_jobs :: "JobPost list"

definition analyze_categories :: "JobPost list \<Rightarrow> (string \<times> nat) list" where
  "analyze_categories jobs =
     fold (\<lambda>job categories. count_key (category job @ ''.'' @ subcategory job) categories) jobs []"

definition analyze_budgets :: "JobPost list \<Rightarrow> (string \<times> nat) list" where
  "analyze_budgets jobs = fold (\<lambda>job budgets. count_key (budget job) budgets) jobs []"

text \<open>One pass of the loop of \<open>_analyze_competition\<close> over a job.\<close>

definition competition_step :: "JobPost \<Rightarrow> competitions \<times> int \<Rightarrow> competitions \<times> int" where
  "competition_step job st =
     (let competitions = fst st; total_proposals = snd st + proposals job
      in if proposals job < 10 then (competitions\<lparr>low := low competitions + 1\<rparr>, total_proposals)
         else if proposals job < 25
           then (competitions\<lparr>medium := medium competitions + 1\<rparr>, total_proposals)
         else (competitions\<lparr>high := high competitions + 1\<rparr>, total_proposals))"

definition analyze_competition :: "JobPost list \<Rightarrow> py_error + competition_view" where
  "analyze_competition jobs =
     (let st = fold competition_step jobs (\<lparr>low = 0, medium = 0, high = 0\<rparr>, 0)
      in if jobs \<noteq> []
         then (case py_truediv (snd st) (length jobs) of
                 Inl e \<Rightarrow> Inl e
               | Inr avg \<Rightarrow> Inr \<lparr>distribution = fst st, average_proposals = avg\<rparr>)
         else Inr \<lparr>distribution = fst st, average_proposals = 0\<rparr>)"

definition analyze_skills :: "JobPost list \<Rightarrow> (string \<times> nat) list" where
  "analyze_skills jobs =
     (let skills = fold (\<lambda>job skills. fold count_key (skills_required job) skills) jobs []
      in take 10 (py_sorted_reverse (\<lambda>x. int (snd x)) skills))"

definition opportunity_of :: "JobPost \<Rightarrow> opportunity" where
  "opportunity_of job =
     \<lparr> opp_job_id = job_id job,
       opp_title = title job,
       score = opportunity_score job,
       opp_budget = budget job,
       opp_proposals = proposals job,
       opp_category = category job @ ''.'' @ subcategory job \<rparr>"

definition find_opportunities :: "JobPost list \<Rightarrow> opportunity list" where
  "find_opportunities jobs =
     py_sorted_reverse score (map opportunity_of (filter (\<lambda>job. opportunity_score job \<ge> 7) jobs))"

text \<open>
  The loop of \<open>analyze_batch\<close>: a record whose processing raises is skipped (the line it
  prints is not part of the result), any other is appended to \<open>processed_jobs\<close>.
\<close>

fun process_all ::
  "(string list \<Rightarrow> string list) \<Rightarrow> job_data list \<Rightarrow> JobPost list \<Rightarrow> JobPost list" where
  "process_all set_list [] processed = processed"
| "process_all set_list (job_data # job_posts) processed =
     (case process_job_post set_list job_data of
        Inr job \<Rightarrow> process_all set_list job_posts (processed @ [job])
      | Inl e \<Rightarrow> process_all set_list job_posts processed)"

definition analyze_batch ::
  "(string list \<Rightarrow> string list) \<Rightarrow> job_data list \<Rightarrow> py_error + analysis" where
  "analyze_batch set_list job_posts =
     (let processed = process_all set_list job_posts []
      in case analyze_competition processed of
           Inl e \<Rightarrow> Inl e
         | Inr c \<Rightarrow>
             Inr \<lparr> total_jobs = length processed,
                   categories = analyze_categories processed,
                   budgets = analyze_budgets processed,
                   competition = c,
                   top_skills = analyze_skills processed,
                   opportunities = find_opportunities processed,
                   processed_jobs = processed \<rparr>)"

subsection \<open>Notions used in the statements\<close>

text \<open>
  The hit counts the classifier compares: the number of keywords of a list that occur in the
  text, and their sum over the subcategories of a category.
\<close>

definition keyword_hits :: "string \<Rightarrow> string list \<Rightarrow> int" where
  "keyword_hits text keywords = int (length (filter (\<lambda>keyword. sublist keyword text) keywords))"

definition category_hits :: "string \<Rightarrow> (string \<times> string list) list \<Rightarrow> int" where
  "category_hits text subcategories =
     sum_list (map (\<lambda>sub. keyword_hits text (snd sub)) subcategories)"

subsection \<open>Sample inputs\<close>

text \<open>A job post with an extreme number of proposals, the largest budget tier and four skills.\<close>

definition extreme_job :: JobPost where
  "extreme_job = \<lparr> job_id = PStr ''x'', title = PStr '''', budget = ''large'', timeline = PStr '''',
     skills_required = [''react'', ''vue'', ''css'', ''html''], client_location = PStr '''',
     client_history = PStr ''Established client'', proposals = 10000000, description = PStr '''',
     opportunity_score = 0, category = ''web_development'', subcategory = ''frontend'',
     notes' = PStr '''' \<rparr>"

text \<open>Records with 5, 15 and 30 proposals, and one whose proposals field is not numeric.\<close>

definition bucket_batch :: "job_data list" where
  "bucket_batch =
     [[''proposals'' \<mapsto> PInt 5], [''proposals'' \<mapsto> PInt 15], [''proposals'' \<mapsto> PInt 30],
      [''proposals'' \<mapsto> PStr ''abc'']]"

text \<open>The batch that \<open>main()\<close> analyzes.\<close>

definition sample_jobs :: "job_data list" where
  "sample_jobs =
     [[''id'' \<mapsto> PStr ''sample1'',
       ''title'' \<mapsto> PStr ''React Developer Needed'',
       ''description'' \<mapsto>
          PStr ''Looking for a React developer to build a modern web application'',
       ''budget'' \<mapsto> PStr ''$500-1000'',
       ''timeline'' \<mapsto> PStr ''2 weeks'',
       ''client_location'' \<mapsto> PStr ''USA'',
       ''client_history'' \<mapsto> PStr ''Established client'',
       ''proposals'' \<mapsto> PInt 15]]"

section \<open>Properties\<close>

subsection \<open>Opportunity score\<close>

lemma budget_bonus_nonneg: "map_of budget_bonus k = Some b \<Longrightarrow> 0 \<le> b"
  by (auto simp: budget_bonus_def split: if_splits)

lemma unclamped_score_cases: "unclamped_score job = Inr s \<Longrightarrow> 3 \<le> s"
  unfolding unclamped_score_def
  by (auto simp: Let_def split: sum.splits if_splits option.splits dest: budget_bonus_nonneg)

lemma unclamped_score_returns:
  "\<exists>h. client_history job = PStr h \<Longrightarrow> \<exists>s. unclamped_score job = Inr s"
  by (auto simp: unclamped_score_def Let_def)

text \<open>
  Claim C1.  For every job post, whatever its proposals count, budget tier, skills and client
  history text, \<open>calculate_opportunity_score\<close> returns an integer between 1 and 10: every
  value it returns lies in that range, and it does return one whenever \<open>client_history\<close> is
  a \<open>str\<close>, as the dataclass declares the field.
\<close>

theorem calculate_opportunity_score_bounds:
  "(\<forall>n. calculate_opportunity_score job = Inr n \<longrightarrow> 1 \<le> n \<and> n \<le> 10) \<and>
   ((\<exists>h. client_history job = PStr h) \<longrightarrow>
      (\<exists>n. calculate_opportunity_score job = Inr n \<and> 1 \<le> n \<and> n \<le> 10))"
proof -
  have range: "1 \<le> n \<and> n \<le> 10" if "calculate_opportunity_score job = Inr n" for n
    using that by (auto simp: calculate_opportunity_score_def split: sum.splits)
  have returns: "\<exists>n. calculate_opportunity_score job = Inr n"
    if "\<exists>h. client_history job = PStr h"
  proof -
    from that have "\<exists>s. unclamped_score job = Inr s"
      by (rule unclamped_score_returns)
    then show ?thesis
      by (auto simp: calculate_opportunity_score_def)
  qed
  from range returns show ?thesis by blast
qed

theorem calculate_opportunity_score_bounds_witness:
  "client_history extreme_job = PStr ''Established client'' \<and>
   calculate_opportunity_score extreme_job = Inr 10 \<and> (1::int) \<le> 10 \<and> (10::int) \<le> 10"
proof -
  have h: "client_history extreme_job = PStr ''Established client''"
    by (simp add: extreme_job_def)
  have s: "calculate_opportunity_score extreme_job = Inr 10"
    by code_simp
  from h s calculate_opportunity_score_bounds [of extreme_job] show ?thesis
    by simp
qed

text \<open>
  Claim C10.  The score before clamping is at least 3, so the lower clamp to 1 never changes
  it and \<open>calculate_opportunity_score\<close> returns a value between 3 and 10.
\<close>

theorem unclamped_score_at_least_3:
  "(\<forall>s. unclamped_score job = Inr s \<longrightarrow>
       3 \<le> s \<and> calculate_opportunity_score job = Inr (min s 10)) \<and>
   (\<forall>n. calculate_opportunity_score job = Inr n \<longrightarrow> 3 \<le> n \<and> n \<le> 10) \<and>
   ((\<exists>h. client_history job = PStr h) \<longrightarrow> (\<exists>s. unclamped_score job = Inr s))"
proof -
  have a: "3 \<le> s \<and> calculate_opportunity_score job = Inr (min s 10)"
    if s: "unclamped_score job = Inr s" for s
  proof -
    from s have "3 \<le> s" by (rule unclamped_score_cases)
    with s show ?thesis by (simp add: calculate_opportunity_score_def max_def)
  qed
  have b: "3 \<le> n \<and> n \<le> 10" if n: "calculate_opportunity_score job = Inr n" for n
  proof -
    from n obtain s where s: "unclamped_score job = Inr s" and "n = min (max s 1) 10"
      by (auto simp: calculate_opportunity_score_def split: sum.splits)
    with unclamped_score_cases [OF s] show ?thesis by auto
  qed
  have c: "\<exists>s. unclamped_score job = Inr s" if "\<exists>h. client_history job = PStr h"
    using that by (rule unclamped_score_returns)
  from a b c show ?thesis by blast
qed

theorem unclamped_score_at_least_3_witness:
  "client_history extreme_job = PStr ''Established client'' \<and>
   unclamped_score extreme_job = Inr 13 \<and> (3::int) \<le> 13 \<and>
   calculate_opportunity_score extreme_job = Inr (min 13 10)"
proof -
  have h: "client_history extreme_job = PStr ''Established client''"
    by (simp add: extreme_job_def)
  have s: "unclamped_score extreme_job = Inr 13"
    by code_simp
  from h s unclamped_score_at_least_3 [of extreme_job] show ?thesis
    by simp
qed


subsection \<open>Classifier\<close>

text \<open>
  \<open>max\<close> with a key returns the first element of greatest key: every element before it has
  a smaller key, every element after it a key that is not greater.
\<close>

lemma max_from_all_le:
  "\<forall>z\<in>set xs. key z \<le> key m \<Longrightarrow> max_from key m xs = m"
  by (induction xs) auto

lemma max_from_restart:
  "\<exists>z\<in>set xs. key m < key z \<Longrightarrow> key m' \<le> key m \<Longrightarrow> max_from key m xs = max_from key m' xs"
proof (induction xs arbitrary: m m')
  case Nil
  then show ?case by simp
next
  case (Cons y ys)
  show ?case
  proof (cases "key m < key y")
    case True
    with Cons.prems show ?thesis by simp
  next
    case False
    with Cons.prems have ex: "\<exists>z\<in>set ys. key m < key z" by auto
    have "key (if key m' < key y then y else m') \<le> key m"
      using False Cons.prems by auto
    from Cons.IH [OF ex this] False show ?thesis by simp
  qed
qed

lemma max_from_Cons:
  "max_from key m (x # xs) =
     (if \<forall>z\<in>set (x # xs). key z \<le> key m then m else max_from key x xs)"
proof (cases "key m < key x")
  case True
  then show ?thesis by auto
next
  case False
  show ?thesis
  proof (cases "\<forall>z\<in>set xs. key z \<le> key m")
    case True
    with False show ?thesis by (simp add: max_from_all_le)
  next
    case False2: False
    then have "\<exists>z\<in>set xs. key m < key z" by (meson not_le)
    from max_from_restart [OF this, of x] False False2 show ?thesis by auto
  qed
qed

lemma max_from_first:
  "\<exists>pre post. m # xs = pre @ max_from key m xs # post \<and>
     (\<forall>y\<in>set pre. key y < key (max_from key m xs)) \<and>
     (\<forall>y\<in>set post. key y \<le> key (max_from key m xs))"
proof (induction xs arbitrary: m)
  case Nil
  show ?case by (intro exI [of _ "[]"]) simp
next
  case (Cons x xs)
  show ?case
  proof (cases "\<forall>z\<in>set (x # xs). key z \<le> key m")
    case True
    then have "max_from key m (x # xs) = m" by (rule max_from_all_le)
    with True show ?thesis by (intro exI [of _ "[]"] exI [of _ "x # xs"]) simp
  next
    case False
    then have r: "max_from key m (x # xs) = max_from key x xs"
      by (simp only: max_from_Cons if_False)
    from Cons.IH [of x] obtain pre post where
      d: "x # xs = pre @ max_from key x xs # post" and
      lt: "\<forall>y\<in>set pre. key y < key (max_from key x xs)" and
      le: "\<forall>y\<in>set post. key y \<le> key (max_from key x xs)" by blast
    from False obtain z where z: "z \<in> set (x # xs)" "key m < key z" by (meson not_le)
    from z(1) d have "z \<in> set pre \<or> z = max_from key x xs \<or> z \<in> set post"
      by (metis Un_iff set_ConsD set_append)
    with lt le have "key z \<le> key (max_from key x xs)" by force
    with z(2) have "key m < key (max_from key x xs)" by simp
    with d lt le r show ?thesis
      by (intro exI [of _ "m # pre"] exI [of _ post]) simp
  qed
qed

lemma py_max_first:
  "xs \<noteq> [] \<Longrightarrow> \<exists>pre r post. py_max key xs = Inr r \<and> xs = pre @ r # post \<and>
     (\<forall>y\<in>set pre. key y < key r) \<and> (\<forall>y\<in>set post. key y \<le> key r)"
proof (cases xs)
  case Nil
  moreover assume "xs \<noteq> []"
  ultimately show ?thesis by simp
next
  case (Cons m ys)
  with max_from_first [of m ys key] show ?thesis by auto
qed

text \<open>The counters of the scoring loops are the numbers of keywords that occur in the text.\<close>

lemma count_hits_eq:
  "count_hits text kws n = n + keyword_hits text kws"
  unfolding count_hits_def keyword_hits_def
  by (induction kws arbitrary: n) auto

lemma fold_count_hits:
  "fold (\<lambda>p. count_hits text (snd p)) subcategories n =
     n + category_hits text subcategories"
  unfolding category_hits_def
  by (induction subcategories arbitrary: n) (auto simp: count_hits_eq)

lemma category_scores_eq:
  "category_scores text = map (\<lambda>c. (fst c, category_hits text (snd c))) skill_keywords"
  by (simp add: category_scores_def fold_count_hits case_prod_unfold)

lemma subcategory_scores_eq:
  "subcategory_scores text subcategories =
     map (\<lambda>s. (fst s, keyword_hits text (snd s))) subcategories"
  by (simp add: subcategory_scores_def count_hits_eq case_prod_unfold)


lemma sum_list_zero: "(\<And>x. x \<in> set xs \<Longrightarrow> f x = 0) \<Longrightarrow> sum_list (map f xs) = (0::int)"
  by (induction xs) auto

lemma skill_keywords_distinct: "distinct (map fst skill_keywords)"
  by (simp add: skill_keywords_def)

lemma skill_keywords_nonempty: "skill_keywords \<noteq> []"
  by (simp add: skill_keywords_def)

lemma subcategories_nonempty: "(c, subs) \<in> set skill_keywords \<Longrightarrow> subs \<noteq> []"
  by (auto simp: skill_keywords_def)

lemma py_max_map_first:
  assumes "xs \<noteq> []"
  shows "\<exists>pre x post. py_max snd (map (\<lambda>x. (fst x, h (snd x))) xs) = Inr (fst x, h (snd x)) \<and>
     xs = pre @ x # post \<and>
     (\<forall>y\<in>set pre. h (snd y) < h (snd x)) \<and> (\<forall>y\<in>set post. h (snd y) \<le> h (snd x))"
proof -
  let ?f = "\<lambda>x. (fst x, h (snd x))"
  from assms have "map ?f xs \<noteq> []" by simp
  from py_max_first [OF this, of snd] obtain pre r post where
    m: "py_max snd (map ?f xs) = Inr r" and
    d: "map ?f xs = pre @ r # post" and
    lt: "\<forall>y\<in>set pre. snd y < snd r" and
    le: "\<forall>y\<in>set post. snd y \<le> snd r" by blast
  from d obtain pre' rest where
    1: "xs = pre' @ rest" "map ?f pre' = pre" "map ?f rest = r # post"
    by (auto simp: map_eq_append_conv)
  from 1(3) obtain x post' where
    2: "rest = x # post'" "?f x = r" "map ?f post' = post"
    by (auto simp: map_eq_Cons_conv)
  from lt 1(2) 2(2) have "\<forall>y\<in>set pre'. h (snd y) < h (snd x)" by force
  moreover from le 2(2,3) have "\<forall>y\<in>set post'. h (snd y) \<le> h (snd x)" by force
  ultimately show ?thesis using m 1(1) 2(1,2)
    by (intro exI [of _ pre'] exI [of _ x] exI [of _ post']) simp
qed

lemma categorize_job_first_max_aux:
  "(\<exists>cpre c subs cpost spre s kws spost.
     categorize_job skills (PStr t) (PStr d) = Inr (c, s) \<and>
     skill_keywords = cpre @ (c, subs) # cpost \<and>
     (\<forall>x\<in>set cpre. category_hits (lower (t @ '' '' @ d)) (snd x)
                       < category_hits (lower (t @ '' '' @ d)) subs) \<and>
     (\<forall>x\<in>set cpost. category_hits (lower (t @ '' '' @ d)) (snd x)
                       \<le> category_hits (lower (t @ '' '' @ d)) subs) \<and>
     subs = spre @ (s, kws) # spost \<and>
     (\<forall>x\<in>set spre. keyword_hits (lower (t @ '' '' @ d)) (snd x)
                       < keyword_hits (lower (t @ '' '' @ d)) kws) \<and>
     (\<forall>x\<in>set spost. keyword_hits (lower (t @ '' '' @ d)) (snd x)
                       \<le> keyword_hits (lower (t @ '' '' @ d)) kws)) \<and>
   ((\<forall>c\<in>set skill_keywords. \<forall>s\<in>set (snd c). \<forall>k\<in>set (snd s).
        \<not> sublist k (lower (t @ '' '' @ d))) \<longrightarrow>
     categorize_job skills (PStr t) (PStr d) = Inr (''web_development'', ''frontend''))"
proof -
  let ?text = "lower (t @ '' '' @ d)"
  from py_max_map_first [OF skill_keywords_nonempty, of "category_hits ?text"]
  obtain cpre x cpost where
    m: "py_max snd (category_scores ?text) = Inr (fst x, category_hits ?text (snd x))" and
    dc: "skill_keywords = cpre @ x # cpost" and
    ltc: "\<forall>y\<in>set cpre. category_hits ?text (snd y) < category_hits ?text (snd x)" and
    lec: "\<forall>y\<in>set cpost. category_hits ?text (snd y) \<le> category_hits ?text (snd x)"
    unfolding category_scores_eq by blast
  obtain c subs where x: "x = (c, subs)" by (cases x)
  from dc x have mem: "(c, subs) \<in> set skill_keywords"
    by (metis in_set_conv_decomp)
  then have look: "map_of skill_keywords c = Some subs"
    using skill_keywords_distinct by simp
  from mem have "subs \<noteq> []" by (rule subcategories_nonempty)
  from py_max_map_first [OF this, of "keyword_hits ?text"]
  obtain spre y spost where
    ms: "py_max snd (subcategory_scores ?text subs) = Inr (fst y, keyword_hits ?text (snd y))" and
    ds: "subs = spre @ y # spost" and
    lts: "\<forall>z\<in>set spre. keyword_hits ?text (snd z) < keyword_hits ?text (snd y)" and
    les: "\<forall>z\<in>set spost. keyword_hits ?text (snd z) \<le> keyword_hits ?text (snd y)"
    unfolding subcategory_scores_eq by blast
  obtain s kws where y: "y = (s, kws)" by (cases y)
  have res: "categorize_job skills (PStr t) (PStr d) = Inr (c, s)"
    using m ms look x y by (simp add: categorize_job_def)
  have first: "\<exists>cpre c subs cpost spre s kws spost.
     categorize_job skills (PStr t) (PStr d) = Inr (c, s) \<and>
     skill_keywords = cpre @ (c, subs) # cpost \<and>
     (\<forall>x\<in>set cpre. category_hits ?text (snd x) < category_hits ?text subs) \<and>
     (\<forall>x\<in>set cpost. category_hits ?text (snd x) \<le> category_hits ?text subs) \<and>
     subs = spre @ (s, kws) # spost \<and>
     (\<forall>x\<in>set spre. keyword_hits ?text (snd x) < keyword_hits ?text kws) \<and>
     (\<forall>x\<in>set spost. keyword_hits ?text (snd x) \<le> keyword_hits ?text kws)"
    using res dc ltc lec ds lts les x y
    by (intro exI [of _ cpre] exI [of _ c] exI [of _ subs] exI [of _ cpost]
          exI [of _ spre] exI [of _ s] exI [of _ kws] exI [of _ spost]) simp
  have none: "categorize_job skills (PStr t) (PStr d) = Inr (''web_development'', ''frontend'')"
    if no: "\<forall>c\<in>set skill_keywords. \<forall>s\<in>set (snd c). \<forall>k\<in>set (snd s). \<not> sublist k ?text"
  proof -
    have k0: "keyword_hits ?text (snd s') = 0" if "c' \<in> set skill_keywords" "s' \<in> set (snd c')" for c' s'
      using no that by (auto simp: keyword_hits_def)
    have c0: "category_hits ?text (snd c') = 0" if "c' \<in> set skill_keywords" for c'
      using k0 [OF that] by (simp add: category_hits_def sum_list_zero)
    have "cpre = []"
    proof (rule ccontr)
      assume "cpre \<noteq> []"
      then obtain z where z: "z \<in> set cpre" by (cases cpre) auto
      with dc have zk: "z \<in> set skill_keywords" by (metis UnI1 set_append)
      from c0 [OF zk] c0 [OF mem] ltc z x show False by force
    qed
    with dc x have "hd skill_keywords = (c, subs)" by (metis append_Nil list.sel(1))
    then have c: "c = ''web_development''" and subs: "fst (hd subs) = ''frontend''"
      by (auto simp: skill_keywords_def)
    have "spre = []"
    proof (rule ccontr)
      assume "spre \<noteq> []"
      then obtain z where z: "z \<in> set spre" by (cases spre) auto
      with ds have zs: "z \<in> set (snd (c, subs))" by simp
      from ds y have ys: "y \<in> set (snd (c, subs))" by simp
      from k0 [OF mem zs] k0 [OF mem ys] lts z show False by force
    qed
    with ds y subs have "s = ''frontend''" by simp
    with c res show ?thesis by simp
  qed
  from first none show ?thesis by blast
qed

lemma categorize_job_returns: "\<exists>cs. categorize_job skills (PStr t) (PStr d) = Inr cs"
  using categorize_job_first_max_aux [of skills t d] by blast

text \<open>
  Claim C6.  For every title and description, \<open>categorize_job\<close> returns a pair
  \<open>(c, s)\<close> where \<open>c\<close> is a category of the taxonomy and \<open>s\<close> a subcategory listed under
  it.  The number of keywords of \<open>c\<close> that occur in the lower-cased text
  \<open>title + " " + description\<close> is greater than that of every category declared before
  \<open>c\<close> and at least that of every category declared after it; \<open>s\<close> is the first
  subcategory of \<open>c\<close> with the greatest number of hits in the same sense.  When no keyword
  occurs in the text the result is \<open>(web_development, frontend)\<close>.
\<close>

theorem categorize_job_first_maximum:
  "(\<exists>cpre c subs cpost spre s kws spost.
     categorize_job skills (PStr t) (PStr d) = Inr (c, s) \<and>
     skill_keywords = cpre @ (c, subs) # cpost \<and>
     (\<forall>x\<in>set cpre. category_hits (lower (t @ '' '' @ d)) (snd x)
                       < category_hits (lower (t @ '' '' @ d)) subs) \<and>
     (\<forall>x\<in>set cpost. category_hits (lower (t @ '' '' @ d)) (snd x)
                       \<le> category_hits (lower (t @ '' '' @ d)) subs) \<and>
     subs = spre @ (s, kws) # spost \<and>
     (\<forall>x\<in>set spre. keyword_hits (lower (t @ '' '' @ d)) (snd x)
                       < keyword_hits (lower (t @ '' '' @ d)) kws) \<and>
     (\<forall>x\<in>set spost. keyword_hits (lower (t @ '' '' @ d)) (snd x)
                       \<le> keyword_hits (lower (t @ '' '' @ d)) kws)) \<and>
   ((\<forall>c\<in>set skill_keywords. \<forall>s\<in>set (snd c). \<forall>k\<in>set (snd s).
        \<not> sublist k (lower (t @ '' '' @ d))) \<longrightarrow>
     categorize_job skills (PStr t) (PStr d) = Inr (''web_development'', ''frontend''))"
  by (rule categorize_job_first_max_aux)

text \<open>With an empty title and an empty description no keyword occurs in the text.\<close>

theorem categorize_job_first_maximum_witness:
  "categorize_job [] (PStr []) (PStr []) = Inr (''web_development'', ''frontend'')"
proof -
  have "\<forall>c\<in>set skill_keywords. \<forall>s\<in>set (snd c). \<forall>k\<in>set (snd s).
        \<not> sublist k (lower ([] @ '' '' @ []))"
    by code_simp
  with categorize_job_first_maximum [of "[]" "[]" "[]"] show ?thesis by blast
qed


subsection \<open>Batch analysis\<close>

lemma fold_competition_step:
  "fold competition_step jobs (c, t) =
     (c\<lparr>low := low c + length (filter (\<lambda>job. proposals job < 10) jobs),
        medium := medium c + length (filter (\<lambda>job. 10 \<le> proposals job \<and> proposals job < 25) jobs),
        high := high c + length (filter (\<lambda>job. 25 \<le> proposals job) jobs)\<rparr>,
      t + sum_list (map proposals jobs))"
  by (induction jobs arbitrary: c t) (auto simp: competition_step_def Let_def)

lemma analyze_competition_distribution:
  "analyze_competition jobs = Inr v \<Longrightarrow>
     distribution v =
       \<lparr>low = length (filter (\<lambda>job. proposals job < 10) jobs),
        medium = length (filter (\<lambda>job. 10 \<le> proposals job \<and> proposals job < 25) jobs),
        high = length (filter (\<lambda>job. 25 \<le> proposals job) jobs)\<rparr>"
  by (auto simp: analyze_competition_def fold_competition_step Let_def split: if_splits sum.splits)

lemma analyze_batch_fields:
  "analyze_batch set_list job_posts = Inr r \<Longrightarrow>
     processed_jobs r = process_all set_list job_posts [] \<and>
     total_jobs r = length (processed_jobs r) \<and>
     analyze_competition (processed_jobs r) = Inr (competition r) \<and>
     top_skills r = analyze_skills (processed_jobs r) \<and>
     opportunities r = find_opportunities (processed_jobs r) \<and>
     categories r = analyze_categories (processed_jobs r) \<and>
     budgets r = analyze_budgets (processed_jobs r)"
  unfolding analyze_batch_def Let_def
  by (cases "analyze_competition (process_all set_list job_posts [])") auto

text \<open>
  Claim C3, as amended.  In the competition view of the report every processed job is counted
  in exactly one bucket: \<open>low\<close> when its proposals count is below 10, \<open>medium\<close> when it is at
  least 10 and below 25, and \<open>high\<close> when it is 25 or more.  (The claim as stated puts the
  counts 25 to 50 into \<open>medium\<close>; the loop of \<open>_analyze_competition\<close> tests \<open>< 25\<close>.)
\<close>

theorem competition_buckets:
  "analyze_batch set_list job_posts = Inr r \<Longrightarrow>
     low (distribution (competition r)) =
       length (filter (\<lambda>job. proposals job < 10) (processed_jobs r)) \<and>
     medium (distribution (competition r)) =
       length (filter (\<lambda>job. 10 \<le> proposals job \<and> proposals job < 25) (processed_jobs r)) \<and>
     high (distribution (competition r)) =
       length (filter (\<lambda>job. 25 \<le> proposals job) (processed_jobs r))"
proof -
  assume "analyze_batch set_list job_posts = Inr r"
  then have "analyze_competition (processed_jobs r) = Inr (competition r)"
    using analyze_batch_fields by blast
  then show ?thesis
    by (simp add: analyze_competition_distribution)
qed

text \<open>
  A batch of four records with 5, 15 and 30 proposals and one whose \<open>proposals\<close> cannot be
  converted: one job in each bucket.
\<close>

theorem competition_buckets_witness:
  "\<exists>r. analyze_batch remdups bucket_batch = Inr r \<and>
     low (distribution (competition r)) = 1 \<and>
     medium (distribution (competition r)) = 1 \<and>
     high (distribution (competition r)) = 1"
proof -
  have "map_sum id (map proposals \<circ> processed_jobs) (analyze_batch remdups bucket_batch) =
      Inr [5, 15, 30]"
    by code_simp
  then obtain r where r: "analyze_batch remdups bucket_batch = Inr r"
    and p: "map proposals (processed_jobs r) = [5, 15, 30]"
    by (cases "analyze_batch remdups bucket_batch") auto
  from p obtain a b c where jobs: "processed_jobs r = [a, b, c]"
    and v: "proposals a = 5" "proposals b = 15" "proposals c = 30"
    by auto
  from competition_buckets [OF r] jobs v r show ?thesis by simp
qed

text \<open>
  A job with 30 proposals lies in the range 10 to 50 of the claim as stated, and is counted
  as \<open>high\<close>, not as \<open>medium\<close>.
\<close>

theorem competition_buckets_counterexample:
  "map_sum id (distribution \<circ> competition) (analyze_batch remdups [[''proposals'' \<mapsto> PInt 30]]) =
     Inr \<lparr>low = 0, medium = 0, high = 1\<rparr> \<and> (10::int) \<le> 30 \<and> (30::int) \<le> 50"
  by code_simp

text \<open>
  The loop keeps exactly the records whose processing returns, in input order.
\<close>

lemma process_all_eq:
  "process_all set_list job_posts processed =
     processed @ List.map_filter
       (\<lambda>job_data. case process_job_post set_list job_data of Inr job \<Rightarrow> Some job | Inl e \<Rightarrow> None)
       job_posts"
  by (induction job_posts arbitrary: processed) (auto split: sum.splits)

lemma process_all_length:
  "length (process_all set_list job_posts []) =
     length (filter (\<lambda>job_data. \<not> isl (process_job_post set_list job_data)) job_posts)"
  by (induction job_posts) (auto simp: process_all_eq split: sum.splits)


lemma analyze_batch_processed_jobs:
  "analyze_batch set_list job_posts = Inr r \<Longrightarrow>
     processed_jobs r = List.map_filter
       (\<lambda>job_data. case process_job_post set_list job_data of Inr job \<Rightarrow> Some job | Inl e \<Rightarrow> None)
       job_posts \<and>
     total_jobs r =
       length (filter (\<lambda>job_data. \<not> isl (process_job_post set_list job_data)) job_posts)"
  using analyze_batch_fields [of set_list job_posts r]
  by (simp add: process_all_eq process_all_length [symmetric])

lemma analyze_batch_raises_only_overflow:
  "analyze_batch set_list job_posts = Inl e \<Longrightarrow> e = OverflowError"
  by (auto simp: analyze_batch_def analyze_competition_def py_truediv_def Let_def
           split: sum.splits if_splits)

text \<open>
  Claim C2.  Every exception raised while a single record is processed is caught and the
  record skipped (\<open>analyze_batch_processed_jobs\<close>), but the average of the proposals is
  computed after the loop, outside the handler: for a single record whose proposals count is
  \<open>10 ^ 400\<close> the division \<open>total_proposals / len(jobs)\<close> raises \<open>OverflowError\<close>, which
  \<open>analyze_batch\<close> propagates to its caller.
\<close>

theorem analyze_batch_overflow:
  "analyze_batch remdups [[''proposals'' \<mapsto> PInt (10 ^ 400)]] = Inl OverflowError"
  by code_simp


subsection \<open>Coercion of the proposals field\<close>

text \<open>When processing a record returns, and when it raises.\<close>

lemma py_text_Inr_iff: "(\<exists>x. py_text a b = Inr x) \<longleftrightarrow> (\<exists>s t. a = PStr s \<and> b = PStr t)"
  by (cases a; cases b) auto

lemma calculate_opportunity_score_Inr_iff:
  "(\<exists>n. calculate_opportunity_score job = Inr n) \<longleftrightarrow> (\<exists>h. client_history job = PStr h)"
  by (cases "client_history job")
     (auto simp: calculate_opportunity_score_def unclamped_score_def Let_def)

lemma calculate_opportunity_score_Inr:
  "calculate_opportunity_score job = Inr n \<Longrightarrow> \<exists>h. client_history job = PStr h"
  using calculate_opportunity_score_Inr_iff by blast

lemma process_job_post_Inr:
  assumes "process_job_post set_list job_data = Inr job"
  shows "(\<exists>t d. get job_data ''title'' (PStr []) = PStr t \<and>
            get job_data ''description'' (PStr []) = PStr d) \<and>
         (\<exists>b. extract_budget (get job_data ''budget'' (PStr [])) = Inr b) \<and>
         py_int (get job_data ''proposals'' (PInt 0)) = Inr (proposals job) \<and>
         (\<exists>h. get job_data ''client_history'' (PStr []) = PStr h)"
proof -
  from assms obtain skills cs b n s where
    1: "extract_skills set_list (get job_data ''description'' (PStr []))
          (get job_data ''title'' (PStr [])) = Inr skills" and
    3: "extract_budget (get job_data ''budget'' (PStr [])) = Inr b" and
    4: "py_int (get job_data ''proposals'' (PInt 0)) = Inr n" and
    5: "calculate_opportunity_score
          \<lparr> job_id = get job_data ''id'' (PStr []),
            title = get job_data ''title'' (PStr []),
            budget = b,
            timeline = get job_data ''timeline'' (PStr []),
            skills_required = skills,
            client_location = get job_data ''client_location'' (PStr []),
            client_history = get job_data ''client_history'' (PStr []),
            proposals = n,
            description = get job_data ''description'' (PStr []),
            opportunity_score = 0,
            category = fst cs,
            subcategory = snd cs,
            notes' = get job_data ''notes'' (PStr []) \<rparr> = Inr s" and
    6: "proposals job = n"
    unfolding process_job_post_def Let_def
    by (auto split: sum.splits)
  from 1 have "\<exists>x. py_text (get job_data ''description'' (PStr []))
      (get job_data ''title'' (PStr [])) = Inr x"
    by (auto simp: extract_skills_def split: sum.splits)
  then have t: "\<exists>t d. get job_data ''title'' (PStr []) = PStr t \<and>
            get job_data ''description'' (PStr []) = PStr d"
    unfolding py_text_Inr_iff by blast
  from calculate_opportunity_score_Inr [OF 5]
  have "\<exists>h. get job_data ''client_history'' (PStr []) = PStr h" by simp
  with t 3 4 6 show ?thesis by blast
qed

lemma process_job_post_returns:
  assumes "get job_data ''title'' (PStr []) = PStr t"
    and "get job_data ''description'' (PStr []) = PStr d"
    and "extract_budget (get job_data ''budget'' (PStr [])) = Inr b"
    and "py_int (get job_data ''proposals'' (PInt 0)) = Inr n"
    and "get job_data ''client_history'' (PStr []) = PStr h"
  shows "\<exists>job. process_job_post set_list job_data = Inr job \<and> proposals job = n"
proof -
  obtain cs where cs:
    "categorize_job (set_list (found_skills (lower (d @ '' '' @ t)))) (PStr t) (PStr d) = Inr cs"
    using categorize_job_returns by blast
  let ?job = "\<lparr> job_id = get job_data ''id'' (PStr []),
            title = PStr t,
            budget = b,
            timeline = get job_data ''timeline'' (PStr []),
            skills_required = set_list (found_skills (lower (d @ '' '' @ t))),
            client_location = get job_data ''client_location'' (PStr []),
            client_history = PStr h,
            proposals = n,
            description = PStr d,
            opportunity_score = 0,
            category = fst cs,
            subcategory = snd cs,
            notes' = get job_data ''notes'' (PStr []) \<rparr>"
  have "\<exists>h'. client_history ?job = PStr h'" by simp
  then obtain s where s: "calculate_opportunity_score ?job = Inr s"
    unfolding calculate_opportunity_score_Inr_iff [symmetric] by blast
  show ?thesis
    unfolding process_job_post_def Let_def
    using assms cs s by (simp add: extract_skills_def)
qed


text \<open>
  Claim C4, as amended.  A record whose \<open>proposals\<close> field is absent is processed exactly as
  with \<open>proposals = 0\<close>, so the absence never makes processing raise: such a record is
  processed, with a proposals count of 0, whenever its title, description, budget and client
  history are acceptable.  A present value is converted by \<open>int()\<close>.  A value that \<open>int()\<close>
  rejects is not coerced to 0: \<open>process_job_post\<close> raises, and since \<open>total_jobs\<close> counts
  the records whose processing returned, the record is not counted.
\<close>

theorem proposals_coercion:
  "(job_data ''proposals'' = None \<longrightarrow>
      process_job_post set_list job_data =
        process_job_post set_list (job_data(''proposals'' \<mapsto> PInt 0))) \<and>
   (\<forall>job. process_job_post set_list job_data = Inr job \<longrightarrow>
      py_int (get job_data ''proposals'' (PInt 0)) = Inr (proposals job)) \<and>
   (\<forall>job. job_data ''proposals'' = None \<longrightarrow>
      process_job_post set_list job_data = Inr job \<longrightarrow> proposals job = 0) \<and>
   ((\<exists>job. process_job_post set_list job_data = Inr job) \<longleftrightarrow>
      (\<exists>t d. get job_data ''title'' (PStr []) = PStr t \<and>
             get job_data ''description'' (PStr []) = PStr d) \<and>
      (\<exists>b. extract_budget (get job_data ''budget'' (PStr [])) = Inr b) \<and>
      (\<exists>n. py_int (get job_data ''proposals'' (PInt 0)) = Inr n) \<and>
      (\<exists>h. get job_data ''client_history'' (PStr []) = PStr h)) \<and>
   (\<forall>e. py_int (get job_data ''proposals'' (PInt 0)) = Inl e \<longrightarrow>
      isl (process_job_post set_list job_data)) \<and>
   (\<forall>r. analyze_batch set_list job_posts = Inr r \<longrightarrow>
      total_jobs r =
        length (filter (\<lambda>job_data. \<not> isl (process_job_post set_list job_data)) job_posts))"
proof -
  have absent: "process_job_post set_list job_data =
        process_job_post set_list (job_data(''proposals'' \<mapsto> PInt 0))"
    if "job_data ''proposals'' = None"
    using that by (simp add: process_job_post_def get_def Let_def cong: sum.case_cong)
  have coerced: "py_int (get job_data ''proposals'' (PInt 0)) = Inr (proposals job)"
    if "process_job_post set_list job_data = Inr job" for job
    using process_job_post_Inr [OF that] by blast
  have zero: "proposals job = 0"
    if "job_data ''proposals'' = None" "process_job_post set_list job_data = Inr job" for job
    using coerced [OF that(2)] that(1) by (simp add: get_def)
  have iff: "(\<exists>job. process_job_post set_list job_data = Inr job) \<longleftrightarrow>
      (\<exists>t d. get job_data ''title'' (PStr []) = PStr t \<and>
             get job_data ''description'' (PStr []) = PStr d) \<and>
      (\<exists>b. extract_budget (get job_data ''budget'' (PStr [])) = Inr b) \<and>
      (\<exists>n. py_int (get job_data ''proposals'' (PInt 0)) = Inr n) \<and>
      (\<exists>h. get job_data ''client_history'' (PStr []) = PStr h)"
    using process_job_post_Inr [of set_list job_data]
      process_job_post_returns [of job_data _ _ _ _ _ set_list]
    by blast
  have rejected: "isl (process_job_post set_list job_data)"
    if "py_int (get job_data ''proposals'' (PInt 0)) = Inl e" for e
  proof (cases "process_job_post set_list job_data")
    case (Inl a)
    then show ?thesis by simp
  next
    case (Inr job)
    from coerced [OF this] that show ?thesis by simp
  qed
  have counted: "total_jobs r =
        length (filter (\<lambda>job_data. \<not> isl (process_job_post set_list job_data)) job_posts)"
    if "analyze_batch set_list job_posts = Inr r" for r
    using analyze_batch_processed_jobs [OF that] by simp
  from absent coerced zero iff rejected counted show ?thesis by blast
qed

text \<open>The empty record is processed, with a proposals count of 0.\<close>

theorem proposals_coercion_witness:
  "\<exists>job. process_job_post remdups Map.empty = Inr job \<and> proposals job = 0"
proof -
  have 1: "\<exists>t d. get Map.empty ''title'' (PStr []) = PStr t \<and>
             get Map.empty ''description'' (PStr []) = PStr d"
    by (simp add: get_def)
  have 2: "\<exists>b. extract_budget (get Map.empty ''budget'' (PStr [])) = Inr b"
    by (simp add: get_def extract_budget_def)
  have 3: "\<exists>n. py_int (get Map.empty ''proposals'' (PInt 0)) = Inr n"
    by (simp add: get_def)
  have 4: "\<exists>h. get Map.empty ''client_history'' (PStr []) = PStr h"
    by (simp add: get_def)
  have 5: "(Map.empty :: job_data) ''proposals'' = None" by simp
  from 1 2 3 4 5 proposals_coercion [of Map.empty remdups "[]"] show ?thesis
    by blast
qed

text \<open>
  The string \<open>abc\<close> is not numeric: processing the record raises \<open>ValueError\<close> and a batch
  made of this record reports \<open>total_jobs = 0\<close>.
\<close>

theorem proposals_coercion_counterexample:
  "process_job_post remdups [''proposals'' \<mapsto> PStr ''abc''] = Inl ValueError \<and>
   map_sum id total_jobs (analyze_batch remdups [[''proposals'' \<mapsto> PStr ''abc'']]) = Inr 0"
  by code_simp


subsection \<open>The sample record of \<open>main()\<close>\<close>

lemma set_list_ok_remdups: "set_list_ok remdups"
  by (simp add: set_list_ok_def)

lemma set_list_ok_length:
  "set_list_ok set_list \<Longrightarrow> distinct xs \<Longrightarrow> length (set_list xs) = length xs"
  unfolding set_list_ok_def by (metis distinct_card)

lemma categorize_job_skills: "categorize_job skills t d = categorize_job [] t d"
  by (simp add: categorize_job_def)

lemma sample_found_skills:
  "found_skills (lower (''Looking for a React developer to build a modern web application''
      @ '' '' @ ''React Developer Needed'')) = [''react'', ''ui'']"
  by code_simp

lemma sample_categorize_job:
  "categorize_job [] (PStr ''React Developer Needed'')
     (PStr ''Looking for a React developer to build a modern web application'') =
   Inr (''web_development'', ''frontend'')"
  by code_simp

lemma sample_extract_budget: "extract_budget (PStr ''$500-1000'') = Inr ''medium''"
  by code_simp

lemma sample_established: "sublist ''established'' (lower ''Established client'')"
  by code_simp

lemma sample_bonus: "map_of budget_bonus ''medium'' = Some 4"
  by code_simp

lemma unclamped_score_update:
  "unclamped_score (job\<lparr>opportunity_score := s\<rparr>) = unclamped_score job"
  by (simp add: unclamped_score_def Let_def cong: if_cong)

lemma sample_processed:
  assumes ok: "set_list_ok set_list"
    and t: "job_data ''title'' = Some (PStr ''React Developer Needed'')"
    and d: "job_data ''description'' =
        Some (PStr ''Looking for a React developer to build a modern web application'')"
    and b: "job_data ''budget'' = Some (PStr ''$500-1000'')"
    and p: "job_data ''proposals'' = Some (PInt 15)"
    and h: "job_data ''client_history'' = Some (PStr ''Established client'')"
  shows "\<exists>job. process_job_post set_list job_data = Inr job \<and>
           category job = ''web_development'' \<and> subcategory job = ''frontend'' \<and>
           budget job = ''medium'' \<and>
           set (skills_required job) = {''react'', ''ui''} \<and>
           length (skills_required job) = 2 \<and>
           unclamped_score job = Inr (5 + 4 + 1 + 2 + 1) \<and>
           opportunity_score job = 10"
proof -
  let ?skills = "set_list [''react'', ''ui'']"
  have len: "length ?skills = 2"
    using set_list_ok_length [OF ok, of "[''react'', ''ui'']"] by simp
  have st: "set ?skills = {''react'', ''ui''}"
    using ok by (simp add: set_list_ok_def)
  have sk: "extract_skills set_list (get job_data ''description'' (PStr ''''))
      (get job_data ''title'' (PStr '''')) = Inr ?skills"
    using t d sample_found_skills by (simp add: extract_skills_def get_def)
  have cat: "categorize_job ?skills (get job_data ''title'' (PStr ''''))
      (get job_data ''description'' (PStr '''')) = Inr (''web_development'', ''frontend'')"
    using t d sample_categorize_job categorize_job_skills [of ?skills] by (simp add: get_def)
  have bud: "extract_budget (get job_data ''budget'' (PStr '''')) = Inr ''medium''"
    using b sample_extract_budget by (simp add: get_def)
  have prs: "py_int (get job_data ''proposals'' (PInt 0)) = Inr 15"
    using p by (simp add: get_def)
  have hist: "get job_data ''client_history'' (PStr '''') = PStr ''Established client''"
    using h by (simp add: get_def)
  define job where "job = \<lparr> job_id = get job_data ''id'' (PStr ''''),
                   title = get job_data ''title'' (PStr ''''),
                   budget = ''medium'',
                   timeline = get job_data ''timeline'' (PStr ''''),
                   skills_required = ?skills,
                   client_location = get job_data ''client_location'' (PStr ''''),
                   client_history = get job_data ''client_history'' (PStr ''''),
                   proposals = 15,
                   description = get job_data ''description'' (PStr ''''),
                   opportunity_score = 0,
                   category = ''web_development'',
                   subcategory = ''frontend'',
                   notes' = get job_data ''notes'' (PStr '''') \<rparr>"
  have un0: "unclamped_score job = Inr 13"
    using len hist sample_established sample_bonus
    by (simp add: unclamped_score_def job_def Let_def)
  then have sc: "calculate_opportunity_score job = Inr 10"
    by (simp add: calculate_opportunity_score_def)
  have un: "unclamped_score (job\<lparr>opportunity_score := 10\<rparr>) = Inr 13"
    using un0 by (simp add: unclamped_score_update)
  have "process_job_post set_list job_data = Inr (job\<lparr>opportunity_score := 10\<rparr>)"
    using sc by (simp add: process_job_post_def sk cat bud prs job_def)
  moreover have "skills_required (job\<lparr>opportunity_score := 10\<rparr>) = ?skills"
    "category (job\<lparr>opportunity_score := 10\<rparr>) = ''web_development''"
    "subcategory (job\<lparr>opportunity_score := 10\<rparr>) = ''frontend''"
    "budget (job\<lparr>opportunity_score := 10\<rparr>) = ''medium''"
    "opportunity_score (job\<lparr>opportunity_score := 10\<rparr>) = 10"
    by (simp_all add: job_def)
  ultimately show ?thesis using len st un by simp
qed

text \<open>
  Claim C9, as amended.  A record with title "React Developer Needed", description "Looking
  for a React developer to build a modern web application", budget "$500-1000", proposals 15
  and client history "Established client" is processed into a job post of category
  \<open>web_development\<close>, subcategory \<open>frontend\<close>, budget tier \<open>medium\<close> and opportunity
  score 10.  Two skills are found, \<open>react\<close> and \<open>ui\<close> (the latter inside "build"), so the
  score before the clamp is 5 (base) + 4 (medium) + 1 (proposals from 10 to 24) + 2 (skills)
  + 1 (established) = 13.  (The claim as stated finds the single skill \<open>react\<close> and the
  sum 12.)  The result does not depend on the order in which the set of skills is listed,
  nor on the other fields of the record.
\<close>

theorem sample_record_pipeline:
  assumes "set_list_ok set_list"
    and "job_data ''title'' = Some (PStr ''React Developer Needed'')"
    and "job_data ''description'' =
        Some (PStr ''Looking for a React developer to build a modern web application'')"
    and "job_data ''budget'' = Some (PStr ''$500-1000'')"
    and "job_data ''proposals'' = Some (PInt 15)"
    and "job_data ''client_history'' = Some (PStr ''Established client'')"
  shows "\<exists>job. process_job_post set_list job_data = Inr job \<and>
           category job = ''web_development'' \<and> subcategory job = ''frontend'' \<and>
           budget job = ''medium'' \<and>
           set (skills_required job) = {''react'', ''ui''} \<and>
           length (skills_required job) = 2 \<and>
           unclamped_score job = Inr (5 + 4 + 1 + 2 + 1) \<and>
           opportunity_score job = 10"
  using assms by (rule sample_processed)

text \<open>The record of \<open>main()\<close>, with the skills listed in order of first occurrence.\<close>

theorem sample_record_pipeline_witness:
  "\<exists>job. process_job_post remdups (hd sample_jobs) = Inr job \<and>
           category job = ''web_development'' \<and> subcategory job = ''frontend'' \<and>
           budget job = ''medium'' \<and>
           set (skills_required job) = {''react'', ''ui''} \<and>
           length (skills_required job) = 2 \<and>
           unclamped_score job = Inr (5 + 4 + 1 + 2 + 1) \<and>
           opportunity_score job = 10"
  by (rule sample_record_pipeline [OF set_list_ok_remdups]) (simp_all add: sample_jobs_def)

text \<open>
  Whatever the order in which the set of skills is listed, the score of the sample record
  before the clamp is not 12.
\<close>

theorem sample_record_pipeline_counterexample:
  "\<not> (\<exists>set_list job. set_list_ok set_list \<and>
        process_job_post set_list (hd sample_jobs) = Inr job \<and>
        unclamped_score job = Inr 12)"
proof
  assume "\<exists>set_list job. set_list_ok set_list \<and>
        process_job_post set_list (hd sample_jobs) = Inr job \<and>
        unclamped_score job = Inr 12"
  then obtain set_list job where ok: "set_list_ok set_list"
    and j: "process_job_post set_list (hd sample_jobs) = Inr job"
    and u: "unclamped_score job = Inr 12"
    by blast
  from sample_processed [OF ok, of "hd sample_jobs"] j
  have "unclamped_score job = Inr 13"
    by (simp add: sample_jobs_def)
  with u show False by simp
qed

end
